theory Spec2Isabelle
  imports Main "HOL-Library.Sublist" "HOL-Library.Word"
begin

section \<open>The provider gateway of src/electron/LLMHelper.ts\<close>

text \<open>
  The class \<^verbatim>\<open>LLMHelper\<close> holds four mutable fields and talks to three collaborators:
  the local inference server (HTTP \<^verbatim>\<open>fetch\<close>), the cloud model handle
  (\<^verbatim>\<open>generateContent\<close>) and the file system and clock of the host. The embedding keeps
  the fields in a record, threads it through every method, and writes each \<^verbatim>\<open>throw\<close> as a
  value \<open>Inl e\<close>. The collaborators are an environment \<open>env\<close> of reply functions: a reply
  may depend on the request and on everything the gateway has requested so far (the
  trace), so that the theorems quantify over every behaviour of the server, the cloud
  service, the disk and the clock.

  Each method runs from its call to its return without another method running in
  between, as the single-threaded event loop does when the caller awaits each call.
  Console output is not part of the state.
\<close>

subsection \<open>Values\<close>

text \<open>
  A thrown JavaScript exception object: its constructor and its \<^verbatim>\<open>message\<close>. Whatever
  \<^verbatim>\<open>fetch\<close>, \<^verbatim>\<open>response.json()\<close>, the file system and the cloud library throw is such an
  object, so that the \<^verbatim>\<open>error.message\<close> the handlers read is a string.
\<close>

datatype js_error =
    Error (message: string)
  | TypeError (message: string)
  | SyntaxError (message: string)

text \<open>
  An optional string parameter (\<^verbatim>\<open>model?: string\<close>): \<open>None\<close> is \<^verbatim>\<open>undefined\<close>. The
  source tests such parameters by truthiness, and the empty string is falsy:
  \<open>given v\<close> is the value when \<^verbatim>\<open>if (v)\<close> takes its first branch.
\<close>

definition given :: "string option \<Rightarrow> string option" where
  "given v = (case v of None \<Rightarrow> None | Some x \<Rightarrow> (if x = [] then None else Some x))"

text \<open>\<^verbatim>\<open>v || d\<close> on an optional string.\<close>

definition or_default :: "string option \<Rightarrow> string \<Rightarrow> string" where
  "or_default v d = (case v of None \<Rightarrow> d | Some x \<Rightarrow> (if x = [] then d else x))"

type_synonym bytes = "8 word list"

text \<open>
  The handle \<^verbatim>\<open>genAI.getGenerativeModel({ model: "gemini-2.0-flash" })\<close> returns: the
  credential it was made with and the model name.
\<close>

datatype GenerativeModel = GenerativeModel (apiKey: string) (modelName: string)

text \<open>One element of the array given to \<^verbatim>\<open>generateContent\<close>.\<close>

datatype part = Text string | InlineData (data: string) (mimeType: string)

text \<open>
  What \<^verbatim>\<open>fetch\<close> resolves to: \<^verbatim>\<open>ok\<close>, \<^verbatim>\<open>status\<close>, \<^verbatim>\<open>statusText\<close>, and what
  \<^verbatim>\<open>await response.json()\<close> gives (it rejects on a body that is not JSON).
\<close>

datatype 'b response =
  Response (ok: bool) (status: nat) (statusText: string) (json: "js_error + 'b")

text \<open>The interface \<^verbatim>\<open>OllamaResponse\<close>; its field \<^verbatim>\<open>done\<close> is \<open>done_flag\<close> here.\<close>

datatype OllamaResponse = OllamaResponse (response: string) (done_flag: bool)

text \<open>
  The requests the gateway issues, as the trace records them: the GET of the model
  list (its URL), the POST of a generation (its URL, and the \<^verbatim>\<open>model\<close> and \<^verbatim>\<open>prompt\<close> of
  its body; \<^verbatim>\<open>stream\<close> and \<^verbatim>\<open>options\<close> are the same constants in every body), a cloud
  generation, a file read and a reading of the clock.
\<close>

datatype io =
    FetchGet string
  | FetchPost string string string
  | GenerateContent GenerativeModel "part list"
  | ReadFile string
  | DateNow

text \<open>
  The environment. \<open>fetch_tags\<close> answers \<^verbatim>\<open>fetch(url)\<close> on the tags endpoint: \<open>Inl e\<close> when
  the promise rejects (no connection), else a response whose decoded body is
  \<open>Some names\<close> when \<^verbatim>\<open>data.models\<close> is an array (\<open>names\<close> its entries' \<^verbatim>\<open>name\<close>s) and
  \<open>None\<close> when \<^verbatim>\<open>data.models\<close> is \<^verbatim>\<open>undefined\<close> or \<^verbatim>\<open>null\<close>; a body on which
  \<^verbatim>\<open>data.models?.map(...)\<close> throws is an \<open>Inl\<close> of \<open>json\<close>.
  \<open>fetch_generate\<close> answers the POST to the generate endpoint in the same way, with the
  decoded \<^verbatim>\<open>OllamaResponse\<close> as body.
  \<open>generateContent\<close> answers the whole of \<^verbatim>\<open>generateContent\<close>, \<^verbatim>\<open>result.response\<close> and
  \<^verbatim>\<open>response.text()\<close>: the text, or the exception one of the three raised.
  \<open>first_rejected\<close> says which of several rejected promises given to \<^verbatim>\<open>Promise.all\<close>
  rejected first: the order in which the host settles them is not the gateway's.
\<close>

record env =
  fetch_tags :: "io list \<Rightarrow> string \<Rightarrow> js_error + (string list option) response"
  fetch_generate :: "io list \<Rightarrow> string \<Rightarrow> string \<Rightarrow> string \<Rightarrow> js_error + OllamaResponse response"
  generateContent :: "io list \<Rightarrow> GenerativeModel \<Rightarrow> part list \<Rightarrow> js_error + string"
  readFile :: "io list \<Rightarrow> string \<Rightarrow> js_error + bytes"
  Date_now :: "io list \<Rightarrow> int"
  toBase64 :: "bytes \<Rightarrow> string"
  first_rejected :: "io list \<Rightarrow> nat"

subsection \<open>State\<close>

text \<open>The private fields of the class.\<close>

record LLMHelper =
  model :: "GenerativeModel option"
  useOllama :: bool
  ollamaModel :: string
  ollamaUrl :: string

text \<open>The object and the requests issued so far, oldest first.\<close>

record state =
  self :: LLMHelper
  trace :: "io list"

text \<open>
  An \<^verbatim>\<open>async\<close> method: from a state to its outcome (\<open>Inl\<close>: the promise rejects, or the
  function throws) and the state it leaves.
\<close>

type_synonym 'a js = "state \<Rightarrow> (js_error + 'a) \<times> state"

definition js_return :: "'a \<Rightarrow> 'a js" where
  "js_return a s = (Inr a, s)"

definition js_throw :: "js_error \<Rightarrow> 'a js" where
  "js_throw e s = (Inl e, s)"

text \<open>Sequencing: an exception skips the rest.\<close>

definition js_bind :: "'a js \<Rightarrow> ('a \<Rightarrow> 'b js) \<Rightarrow> 'b js" where
  "js_bind m f s = (case m s of (Inl e, s') \<Rightarrow> (Inl e, s') | (Inr a, s') \<Rightarrow> f a s')"

text \<open>\<^verbatim>\<open>try { m } catch (error) { h error }\<close>.\<close>

definition js_try :: "'a js \<Rightarrow> (js_error \<Rightarrow> 'a js) \<Rightarrow> 'a js" where
  "js_try m h s = (case m s of (Inl e, s') \<Rightarrow> h e s' | (Inr a, s') \<Rightarrow> (Inr a, s'))"

text \<open>A value that is either thrown or returned, as a computation.\<close>

definition js_lift :: "js_error + 'a \<Rightarrow> 'a js" where
  "js_lift r s = (r, s)"

text \<open>Issuing a request: the environment answers from the trace so far, and the request joins the trace.\<close>

definition await_io :: "io \<Rightarrow> (io list \<Rightarrow> js_error + 'a) \<Rightarrow> 'a js" where
  "await_io rq reply s = (reply (trace s), s\<lparr>trace := trace s @ [rq]\<rparr>)"

definition fetch_get :: "env \<Rightarrow> string \<Rightarrow> (string list option) response js" where
  "fetch_get env url = await_io (FetchGet url) (\<lambda>h. fetch_tags env h url)"

definition fetch_post :: "env \<Rightarrow> string \<Rightarrow> string \<Rightarrow> string \<Rightarrow> OllamaResponse response js" where
  "fetch_post env url m prompt =
     await_io (FetchPost url m prompt) (\<lambda>h. fetch_generate env h url m prompt)"

subsection \<open>Listing the local models\<close>

text \<open>\<^verbatim>\<open>getOllamaModels\<close>, lines 305 to 318.\<close>

definition getOllamaModels :: "env \<Rightarrow> string list js" where
  "getOllamaModels env s =
     (if \<not> useOllama (self s) then js_return [] s
      else js_try
        (js_bind (fetch_get env (ollamaUrl (self s) @ ''/api/tags'')) (\<lambda>rsp.
           if \<not> ok rsp then js_throw (Error ''Failed to fetch models'')
           else js_bind (js_lift (json rsp)) (\<lambda>d.
             js_return (case d of Some names \<Rightarrow> names | None \<Rightarrow> []))))
        (\<lambda>error. js_return []) s)"

subsection \<open>Calling the local server\<close>

text \<open>A number in a template literal: its decimal digits.\<close>

fun string_of_nat :: "nat \<Rightarrow> string" where
  "string_of_nat n =
     (if n < 10 then [''0123456789'' ! n]
      else string_of_nat (n div 10) @ [''0123456789'' ! (n mod 10)])"

declare string_of_nat.simps [simp del]

text \<open>\<^verbatim>\<open>callOllama\<close>, lines 67 to 95: every failure is rethrown as a new \<^verbatim>\<open>Error\<close>.\<close>

definition callOllama :: "env \<Rightarrow> string \<Rightarrow> string js" where
  "callOllama env prompt s =
     js_try
       (js_bind
          (fetch_post env (ollamaUrl (self s) @ ''/api/generate'') (ollamaModel (self s)) prompt)
          (\<lambda>rsp.
             if \<not> ok rsp
             then js_throw (Error (''Ollama API error: '' @ string_of_nat (status rsp) @ '' ''
                                    @ statusText rsp))
             else js_bind (js_lift (json rsp)) (\<lambda>d. js_return (response d))))
       (\<lambda>error s'.
          js_throw (Error (''Failed to connect to Ollama: '' @ message error
                           @ ''. Make sure Ollama is running on '' @ ollamaUrl (self s'))) s')
       s"

text \<open>\<^verbatim>\<open>checkOllamaAvailable\<close>, lines 97 to 104.\<close>

definition checkOllamaAvailable :: "env \<Rightarrow> bool js" where
  "checkOllamaAvailable env s =
     js_try
       (js_bind (fetch_get env (ollamaUrl (self s) @ ''/api/tags'')) (\<lambda>rsp. js_return (ok rsp)))
       (\<lambda>error. js_return False)
       s"

subsection \<open>Choosing the local model\<close>

text \<open>An assignment to fields of \<^verbatim>\<open>this\<close>.\<close>

definition modify :: "(LLMHelper \<Rightarrow> LLMHelper) \<Rightarrow> unit js" where
  "modify f s = (Inr (), s\<lparr>self := f (self s)\<rparr>)"

text \<open>
  \<^verbatim>\<open>initializeOllamaModel\<close>, lines 106 to 136. The \<^verbatim>\<open>return\<close> on an empty list leaves
  the \<^verbatim>\<open>try\<close>, after which the function has nothing left to do.
\<close>

definition initializeOllamaModel :: "env \<Rightarrow> unit js" where
  "initializeOllamaModel env =
     js_try
       (js_bind (getOllamaModels env) (\<lambda>availableModels.
          case availableModels of
            [] \<Rightarrow> js_return ()
          | first # rest \<Rightarrow>
              js_bind
                (\<lambda>s. if ollamaModel (self s) \<notin> set availableModels
                     then modify (\<lambda>this. this\<lparr>ollamaModel := first\<rparr>) s
                     else js_return () s)
                (\<lambda>u. js_bind (callOllama env ''Hello'') (\<lambda>testResult. js_return ()))))
       (\<lambda>error.
          js_try
            (js_bind (getOllamaModels env) (\<lambda>models.
               case models of
                 [] \<Rightarrow> js_return ()
               | first # rest \<Rightarrow> modify (\<lambda>this. this\<lparr>ollamaModel := first\<rparr>)))
            (\<lambda>fallbackError. js_return ()))"

subsection \<open>Construction and the two switches\<close>

text \<open>The field initialisers, lines 10 and 26 to 28.\<close>

definition initial_fields :: LLMHelper where
  "initial_fields =
     \<lparr>model = None, useOllama = False, ollamaModel = ''llama3.2'',
      ollamaUrl = ''http://localhost:11434''\<rparr>"

text \<open>
  The constructor, lines 30 to 47: the object it returns, or the exception it throws.
  \<^verbatim>\<open>useOllama\<close> defaults to \<^verbatim>\<open>false\<close>. Making the cloud handle
  (\<^verbatim>\<open>new GoogleGenerativeAI(apiKey)\<close>, \<^verbatim>\<open>getGenerativeModel\<close>) issues no request and
  does not throw. In local mode the constructor also starts \<^verbatim>\<open>initializeOllamaModel\<close>
  and does not wait for it: see \<open>constructor_settled\<close>.
\<close>

definition constructor ::
  "string option \<Rightarrow> bool option \<Rightarrow> string option \<Rightarrow> string option \<Rightarrow> js_error + LLMHelper" where
  "constructor apiKey_arg useOllama_arg ollamaModel_arg ollamaUrl_arg =
     (let use = (case useOllama_arg of None \<Rightarrow> False | Some b \<Rightarrow> b);
          this = initial_fields\<lparr>useOllama := use\<rparr>
      in if use
         then Inr (this\<lparr>ollamaUrl := or_default ollamaUrl_arg ''http://localhost:11434'',
                       ollamaModel := or_default ollamaModel_arg ''gemma:latest''\<rparr>)
         else (case given apiKey_arg of
                 Some k \<Rightarrow> Inr (this\<lparr>model := Some (GenerativeModel k ''gemini-2.0-flash'')\<rparr>)
               | None \<Rightarrow> Inl (Error ''Either provide Gemini API key or enable Ollama mode'')))"

text \<open>
  The state once the initialisation the constructor started has finished: the trace
  begins empty with the new object.
\<close>

definition constructor_settled ::
  "env \<Rightarrow> string option \<Rightarrow> bool option \<Rightarrow> string option \<Rightarrow> string option \<Rightarrow> js_error + state" where
  "constructor_settled env apiKey_arg useOllama_arg ollamaModel_arg ollamaUrl_arg =
     (case constructor apiKey_arg useOllama_arg ollamaModel_arg ollamaUrl_arg of
        Inl e \<Rightarrow> Inl e
      | Inr this \<Rightarrow>
          Inr (if useOllama this
               then snd (initializeOllamaModel env \<lparr>self = this, trace = []\<rparr>)
               else \<lparr>self = this, trace = []\<rparr>))"

text \<open>\<^verbatim>\<open>switchToOllama\<close>, lines 328 to 340.\<close>

definition switchToOllama :: "env \<Rightarrow> string option \<Rightarrow> string option \<Rightarrow> unit js" where
  "switchToOllama env model_arg url_arg =
     js_bind (modify (\<lambda>this. this\<lparr>useOllama := True\<rparr>)) (\<lambda>u.
     js_bind
       (case given url_arg of
          Some url \<Rightarrow> modify (\<lambda>this. this\<lparr>ollamaUrl := url\<rparr>)
        | None \<Rightarrow> js_return ())
       (\<lambda>u. case given model_arg of
               Some m \<Rightarrow> modify (\<lambda>this. this\<lparr>ollamaModel := m\<rparr>)
             | None \<Rightarrow> initializeOllamaModel env))"

text \<open>\<^verbatim>\<open>switchToGemini\<close>, lines 342 to 354.\<close>

definition switchToGemini :: "string option \<Rightarrow> unit js" where
  "switchToGemini apiKey_arg =
     js_bind
       (case given apiKey_arg of
          Some k \<Rightarrow> modify (\<lambda>this. this\<lparr>model := Some (GenerativeModel k ''gemini-2.0-flash'')\<rparr>)
        | None \<Rightarrow> js_return ())
       (\<lambda>u. js_bind
          (\<lambda>s. if model (self s) = None \<and> given apiKey_arg = None
               then js_throw (Error ''No Gemini API key provided and no existing model instance'') s
               else js_return () s)
          (\<lambda>u. modify (\<lambda>this. this\<lparr>useOllama := False\<rparr>)))"

subsection \<open>Queries\<close>

definition isUsingOllama :: "LLMHelper \<Rightarrow> bool" where
  "isUsingOllama this = useOllama this"

definition getCurrentProvider :: "LLMHelper \<Rightarrow> string" where
  "getCurrentProvider this = (if useOllama this then ''ollama'' else ''gemini'')"

definition getCurrentModel :: "LLMHelper \<Rightarrow> string" where
  "getCurrentModel this = (if useOllama this then ollamaModel this else ''gemini-2.0-flash'')"

subsection \<open>Calling the cloud model\<close>

text \<open>
  \<^verbatim>\<open>this.model.generateContent(parts)\<close> followed by \<^verbatim>\<open>result.response\<close> and
  \<^verbatim>\<open>response.text()\<close>. The field \<^verbatim>\<open>model\<close> may be \<^verbatim>\<open>null\<close>, and no generation method
  tests it: the property access then throws a \<^verbatim>\<open>TypeError\<close> before any request.
\<close>

definition model_generateContent :: "env \<Rightarrow> part list \<Rightarrow> string js" where
  "model_generateContent env parts s =
     (case model (self s) of
        None \<Rightarrow> js_throw (TypeError ''Cannot read properties of null (reading 'generateContent')'') s
      | Some g \<Rightarrow> await_io (GenerateContent g parts) (\<lambda>h. generateContent env h g parts) s)"

text \<open>\<^verbatim>\<open>Date.now()\<close>.\<close>

definition date_now :: "env \<Rightarrow> int js" where
  "date_now env = await_io DateNow (\<lambda>h. Inr (Date_now env h))"

text \<open>\<^verbatim>\<open>fs.promises.readFile(path)\<close>.\<close>

definition fs_readFile :: "env \<Rightarrow> string \<Rightarrow> bytes js" where
  "fs_readFile env path = await_io (ReadFile path) (\<lambda>h. readFile env h path)"

text \<open>\<^verbatim>\<open>fileToGenerativePart\<close>, lines 49 to 57.\<close>

definition fileToGenerativePart :: "env \<Rightarrow> string \<Rightarrow> part js" where
  "fileToGenerativePart env imagePath =
     js_bind (fs_readFile env imagePath) (\<lambda>imageData.
       js_return (InlineData (toBase64 env imageData) ''image/png''))"

text \<open>
  Promises started in list order: every one of them runs to its end, and each leaves
  its outcome.
\<close>

fun run_all :: "'a js list \<Rightarrow> state \<Rightarrow> (js_error + 'a) list \<times> state" where
  "run_all [] s = ([], s)"
| "run_all (m # ms) s =
     (case m s of (r, s') \<Rightarrow> (case run_all ms s' of (rs, s'') \<Rightarrow> (r # rs, s'')))"

definition rejections :: "(js_error + 'a) list \<Rightarrow> js_error list" where
  "rejections rs = concat (map (\<lambda>r. case r of Inl e \<Rightarrow> [e] | Inr a \<Rightarrow> []) rs)"

definition fulfilled :: "(js_error + 'a) list \<Rightarrow> 'a list" where
  "fulfilled rs = concat (map (\<lambda>r. case r of Inl e \<Rightarrow> [] | Inr a \<Rightarrow> [a]) rs)"

text \<open>
  \<^verbatim>\<open>await Promise.all(ms)\<close>: the list of the values when no promise rejected; else the
  exception of the promise that rejected first, which is the host's choice among those
  that rejected (\<open>first_rejected\<close>, counted among them and taken modulo their number).
\<close>

definition promise_all :: "env \<Rightarrow> 'a js list \<Rightarrow> 'a list js" where
  "promise_all env ms s =
     (case run_all ms s of (rs, s') \<Rightarrow>
        (if rejections rs = [] then Inr (fulfilled rs)
         else Inl (rejections rs ! (first_rejected env (trace s') mod length (rejections rs))),
         s'))"

text \<open>The value the generation methods return: \<^verbatim>\<open>{ text, timestamp }\<close>.\<close>

datatype generation = Generation (result_text: string) (timestamp: int)

text \<open>The value \<^verbatim>\<open>testConnection\<close> returns: \<^verbatim>\<open>{ success, error? }\<close>.\<close>

datatype connection = Connection (success: bool) (error: "string option")

subsection \<open>Prompts\<close>

text \<open>
  Strings are sequences of bytes here, so the two dashes of the prompts are their
  UTF-8 encodings, and a line break of a template literal is the byte 10.
\<close>

definition nl :: string where
  "nl = [CHR 0x0A]"

definition en_dash :: string where
  "en_dash = [CHR 0xE2, CHR 0x80, CHR 0x93]"

definition em_dash :: string where
  "em_dash = [CHR 0xE2, CHR 0x80, CHR 0x94]"

definition systemPrompt :: string where
  "systemPrompt = concat
     [nl, ''You are Wingman AI, the user's interview voice.'', nl,
      nl,
      ''Your job is to generate direct, natural spoken answers in the first person (\"I\") '',
      em_dash, '' as if the user is answering live in an interview.'', nl,
      nl,
      ''Do NOT describe how to answer or explain your reasoning.'', nl,
      ''Do NOT list options or steps.'', nl,
      ''Simply produce the final, fluent response that sounds confident, friendly, and professional.'', nl,
      nl,
      ''Each answer should:'', nl,
      ''- Be concise (3'', en_dash, ''6 sentences).'', nl,
      ''- Sound natural when read aloud.'', nl,
      ''- Reflect the user's real experience as a QA Engineer (manual & automation testing, CI/CD, API testing, etc.).'', nl,
      ''- Use active voice and confident tone.'', nl]"

definition extractProblem_prompt :: string where
  "extractProblem_prompt = concat
     [systemPrompt, nl,
      ''  You are viewing images that contain an interview question or technical scenario.'', nl,
      ''  Describe briefly, in natural first-person language (\"I\"), what the question or situation is about, as if I'm explaining it to an interviewer.'', nl,
      ''  Then give a clear, confident spoken answer that I could say during an interview.'', nl,
      ''  Be concise (3'', en_dash, ''6 sentences). Do NOT output JSON or code blocks.'']"

definition generateSolution_prompt :: "string \<Rightarrow> string" where
  "generateSolution_prompt problemInfo_json = concat
     [systemPrompt, nl,
      ''  You are preparing me to answer this interview question or scenario:'', nl,
      ''  '', problemInfo_json, nl,
      nl,
      ''  Respond in natural spoken first-person English, as if I'm speaking in the interview.'', nl,
      ''  Be confident, concise (3'', en_dash, ''6 sentences), and professional.'', nl,
      ''  Do NOT return JSON, reasoning, or code blocks '', em_dash,
      '' only the final answer I would say aloud.'']"

definition debugSolution_prompt :: "string \<Rightarrow> string \<Rightarrow> string" where
  "debugSolution_prompt problemInfo_json currentCode = concat
     [systemPrompt, nl,
      ''  Given this interview question or task:'', nl,
      ''  '', problemInfo_json, nl,
      nl,
      ''  And my current draft answer or approach:'', nl,
      ''  '', currentCode, nl,
      nl,
      ''  Using the new information visible in these images, refine my answer.'', nl,
      ''  Output a short, improved, confident first-person response suitable for speaking aloud.'', nl,
      ''  Do NOT include JSON or reasoning '', em_dash, '' only the updated spoken answer.'']"

definition analyzeAudioFile_prompt :: string where
  "analyzeAudioFile_prompt = concat
     [systemPrompt, nl,
      ''  Listen to this audio interview question.'', nl,
      ''  Transcribe its content internally (do not show the transcription) and then respond in the first person as if I'm answering it directly in the interview.'', nl,
      ''  Keep it short (3'', en_dash, ''6 sentences), confident, and conversational.'']"

definition analyzeAudioFromBase64_prompt :: string where
  "analyzeAudioFromBase64_prompt = concat
     [systemPrompt, nl,
      ''  Listen to this interview question.'', nl,
      ''  Reply directly in first person (\"I\") with a short, natural spoken answer as if I'm responding to the interviewer.'', nl,
      ''  Be confident, clear, and concise (3'', en_dash, ''6 sentences).'']"

definition analyzeImageFile_prompt :: string where
  "analyzeImageFile_prompt = concat
     [systemPrompt, nl,
      ''  Look at this image and understand what interview question or topic it represents.'', nl,
      ''  Then answer directly in first person as if I'm explaining it to the interviewer.'', nl,
      ''  Keep the response short, confident, and spoken in natural English (3'', en_dash,
      ''6 sentences).'']"

subsection \<open>Generation\<close>

text \<open>
  The tail every generation method shares: the cloud call, then
  \<^verbatim>\<open>return { text: response.text(), timestamp: Date.now() }\<close>. The text is returned as
  the service gave it; the clock is read after the text has arrived.
\<close>

definition generate_result :: "env \<Rightarrow> part list \<Rightarrow> generation js" where
  "generate_result env parts =
     js_bind (model_generateContent env parts) (\<lambda>t.
       js_bind (date_now env) (\<lambda>now. js_return (Generation t now)))"

text \<open>\<^verbatim>\<open>extractProblemFromImages\<close>, lines 139 to 156.\<close>

definition extractProblemFromImages :: "env \<Rightarrow> string list \<Rightarrow> generation js" where
  "extractProblemFromImages env imagePaths =
     js_try
       (js_bind (promise_all env (map (fileToGenerativePart env) imagePaths)) (\<lambda>imageParts.
          generate_result env (Text extractProblem_prompt # imageParts)))
       (\<lambda>err. js_throw err)"

text \<open>
  \<^verbatim>\<open>generateSolution\<close>, lines 159 to 179. \<open>problemInfo\<close> is what
  \<^verbatim>\<open>JSON.stringify(problemInfo, null, 2)\<close> gives inside the template: the JSON text (the
  word \<^verbatim>\<open>undefined\<close> for a value that has none), or the exception it throws on a cyclic
  value. The prompt is built before the \<^verbatim>\<open>try\<close>.
\<close>

definition generateSolution :: "env \<Rightarrow> js_error + string \<Rightarrow> generation js" where
  "generateSolution env problemInfo =
     js_bind (js_lift problemInfo) (\<lambda>problemInfo_json.
       js_try
         (generate_result env [Text (generateSolution_prompt problemInfo_json)])
         (\<lambda>err. js_throw err))"

text \<open>\<^verbatim>\<open>debugSolutionWithImages\<close>, lines 182 to 204: here the prompt is built inside the \<^verbatim>\<open>try\<close>, after the files are read.\<close>

definition debugSolutionWithImages ::
  "env \<Rightarrow> js_error + string \<Rightarrow> string \<Rightarrow> string list \<Rightarrow> generation js" where
  "debugSolutionWithImages env problemInfo currentCode debugImagePaths =
     js_try
       (js_bind (promise_all env (map (fileToGenerativePart env) debugImagePaths)) (\<lambda>imageParts.
          js_bind (js_lift problemInfo) (\<lambda>problemInfo_json.
            generate_result env
              (Text (debugSolution_prompt problemInfo_json currentCode) # imageParts))))
       (\<lambda>err. js_throw err)"

text \<open>\<^verbatim>\<open>analyzeAudioFile\<close>, lines 207 to 229.\<close>

definition analyzeAudioFile :: "env \<Rightarrow> string \<Rightarrow> generation js" where
  "analyzeAudioFile env audioPath =
     js_try
       (js_bind (fs_readFile env audioPath) (\<lambda>audioData.
          generate_result env
            [Text analyzeAudioFile_prompt, InlineData (toBase64 env audioData) ''audio/mp3'']))
       (\<lambda>err. js_throw err)"

text \<open>\<^verbatim>\<open>analyzeAudioFromBase64\<close>, lines 232 to 253.\<close>

definition analyzeAudioFromBase64 :: "env \<Rightarrow> string \<Rightarrow> string \<Rightarrow> generation js" where
  "analyzeAudioFromBase64 env d mt =
     js_try
       (generate_result env [Text analyzeAudioFromBase64_prompt, InlineData d mt])
       (\<lambda>err. js_throw err)"

text \<open>\<^verbatim>\<open>analyzeImageFile\<close>, lines 256 to 278.\<close>

definition analyzeImageFile :: "env \<Rightarrow> string \<Rightarrow> generation js" where
  "analyzeImageFile env imagePath =
     js_try
       (js_bind (fs_readFile env imagePath) (\<lambda>imageData.
          generate_result env
            [Text analyzeImageFile_prompt, InlineData (toBase64 env imageData) ''image/png'']))
       (\<lambda>err. js_throw err)"

text \<open>\<^verbatim>\<open>chatWithGemini\<close>, lines 280 to 295, and \<^verbatim>\<open>chat\<close>, lines 297 to 299.\<close>

definition chatWithGemini :: "env \<Rightarrow> string \<Rightarrow> string js" where
  "chatWithGemini env msg =
     js_try
       (\<lambda>s. if useOllama (self s) then callOllama env msg s
            else if model (self s) \<noteq> None then model_generateContent env [Text msg] s
            else js_throw (Error ''No LLM provider configured'') s)
       (\<lambda>error. js_throw error)"

definition chat :: "env \<Rightarrow> string \<Rightarrow> string js" where
  "chat env msg = chatWithGemini env msg"

subsection \<open>Testing the connection\<close>

text \<open>\<^verbatim>\<open>testConnection\<close>, lines 356 to 383.\<close>

definition testConnection :: "env \<Rightarrow> connection js" where
  "testConnection env =
     js_try
       (\<lambda>s. if useOllama (self s)
            then js_bind (checkOllamaAvailable env) (\<lambda>available.
                   if \<not> available
                   then (\<lambda>s'. js_return
                           (Connection False
                              (Some (''Ollama not available at '' @ ollamaUrl (self s')))) s')
                   else js_bind (callOllama env ''Hello'') (\<lambda>r.
                          js_return (Connection True None))) s
            else if model (self s) = None
            then js_return (Connection False (Some ''No Gemini model configured'')) s
            else js_bind (model_generateContent env [Text ''Hello'']) (\<lambda>t.
                   if t \<noteq> []
                   then js_return (Connection True None)
                   else js_return (Connection False (Some ''Empty response from Gemini''))) s)
       (\<lambda>error. js_return (Connection False (Some (message error))))"

section \<open>Observations\<close>

text \<open>
  The definitions of this section are not methods of the class: they name what the
  properties below speak about, and each is defined through the methods above.
\<close>

subsection \<open>The generation methods as one operation\<close>

text \<open>
  The six public methods that return \<^verbatim>\<open>{ text, timestamp }\<close>, indexed by the method
  called: text prompts (\<open>GenerateSolution\<close>), image sets (\<open>ExtractProblemFromImages\<close>,
  \<open>DebugSolutionWithImages\<close>, \<open>AnalyzeImageFile\<close>) and audio (\<open>AnalyzeAudioFile\<close>,
  \<open>AnalyzeAudioFromBase64\<close>).
\<close>

datatype generation_call =
    ExtractProblemFromImages "string list"
  | GenerateSolution "js_error + string"
  | DebugSolutionWithImages "js_error + string" string "string list"
  | AnalyzeAudioFile string
  | AnalyzeAudioFromBase64 string string
  | AnalyzeImageFile string

fun perform :: "env \<Rightarrow> generation_call \<Rightarrow> generation js" where
  "perform env (ExtractProblemFromImages imagePaths) = extractProblemFromImages env imagePaths"
| "perform env (GenerateSolution problemInfo) = generateSolution env problemInfo"
| "perform env (DebugSolutionWithImages problemInfo currentCode debugImagePaths) =
     debugSolutionWithImages env problemInfo currentCode debugImagePaths"
| "perform env (AnalyzeAudioFile audioPath) = analyzeAudioFile env audioPath"
| "perform env (AnalyzeAudioFromBase64 d mt) = analyzeAudioFromBase64 env d mt"
| "perform env (AnalyzeImageFile imagePath) = analyzeImageFile env imagePath"

subsection \<open>What the local server would answer\<close>

text \<open>
  The list \<^verbatim>\<open>getOllamaModels\<close> returns in local mode when the requests so far are \<open>h\<close>
  and the endpoint is \<open>url\<close>.
\<close>

definition listing :: "env \<Rightarrow> io list \<Rightarrow> string \<Rightarrow> string list" where
  "listing env h url =
     (case fst (getOllamaModels env
                  \<lparr>self = \<lparr>model = None, useOllama = True, ollamaModel = [], ollamaUrl = url\<rparr>,
                   trace = h\<rparr>) of
        Inl e \<Rightarrow> []
      | Inr names \<Rightarrow> names)"

text \<open>
  Whether \<^verbatim>\<open>callOllama(prompt)\<close> returns, rather than throws, when the requests so far
  are \<open>h\<close>, the endpoint is \<open>url\<close> and the active model is \<open>m\<close>.
\<close>

definition answers :: "env \<Rightarrow> io list \<Rightarrow> string \<Rightarrow> string \<Rightarrow> string \<Rightarrow> bool" where
  "answers env h url m prompt =
     (case fst (callOllama env prompt
                  \<lparr>self = \<lparr>model = None, useOllama = True, ollamaModel = m, ollamaUrl = url\<rparr>,
                   trace = h\<rparr>) of
        Inl e \<Rightarrow> False
      | Inr r \<Rightarrow> True)"

text \<open>
  The state after the first two statements of \<^verbatim>\<open>switchToOllama\<close>: local mode, and the
  endpoint replaced when one is given.
\<close>

definition entering :: "string option \<Rightarrow> state \<Rightarrow> state" where
  "entering url_arg s =
     s\<lparr>self := (self s)\<lparr>useOllama := True,
                          ollamaUrl := or_default url_arg (ollamaUrl (self s))\<rparr>\<rparr>"

text \<open>
  The active model once \<open>first\<close> has been selected with the requests so far \<open>h\<close> and
  is put to the test: \<open>first\<close> itself when the test call is answered, or when it fails
  and the fresh list is empty; the first entry of the fresh list otherwise.
\<close>

definition after_test :: "env \<Rightarrow> io list \<Rightarrow> string \<Rightarrow> string \<Rightarrow> string" where
  "after_test env h url first =
     (if answers env (h @ [FetchGet (url @ ''/api/tags'')]) url first ''Hello'' then first
      else (case listing env (h @ [FetchGet (url @ ''/api/tags''),
                                   FetchPost (url @ ''/api/generate'') first ''Hello'']) url of
              [] \<Rightarrow> first
            | f # r \<Rightarrow> f))"

subsection \<open>What a method leaves behind\<close>

text \<open>The requests that ask a backend to generate.\<close>

fun is_generation :: "io \<Rightarrow> bool" where
  "is_generation (FetchPost url m p) = True"
| "is_generation (GenerateContent g ps) = True"
| "is_generation rq = False"

definition generations :: "io list \<Rightarrow> nat" where
  "generations h = length (filter is_generation h)"

text \<open>
  \<open>quiet n m\<close>: the method \<open>m\<close> assigns no field of the object, and it only adds
  requests to the trace, at most \<open>n\<close> of them generation requests.
\<close>

definition quiet :: "nat \<Rightarrow> 'a js \<Rightarrow> bool" where
  "quiet n m =
     (\<forall>s. self (snd (m s)) = self s \<and>
          (\<exists>new. trace (snd (m s)) = trace s @ new \<and> generations new \<le> n))"

text \<open>
  \<open>stamped env m\<close>: when \<open>m\<close> returns, its text is the reply of one cloud request it
  issued, and its timestamp is the clock as read right after that request.
\<close>

definition stamped :: "env \<Rightarrow> generation js \<Rightarrow> bool" where
  "stamped env m =
     (\<forall>s r s'. m s = (Inr r, s') \<longrightarrow>
        (\<exists>h g parts. prefix (trace s) h \<and>
           generateContent env h g parts = Inr (result_text r) \<and>
           timestamp r = Date_now env (h @ [GenerateContent g parts]) \<and>
           trace s' = h @ [GenerateContent g parts, DateNow]))"

subsection \<open>Example environments and states\<close>

text \<open>A host on which nothing answers: every request fails, the clock counts requests.\<close>

definition offline :: env where
  "offline =
     \<lparr>fetch_tags = (\<lambda>h url. Inl (TypeError ''fetch failed'')),
      fetch_generate = (\<lambda>h url m p. Inl (TypeError ''fetch failed'')),
      generateContent = (\<lambda>h g ps. Inl (Error ''fetch failed'')),
      readFile = (\<lambda>h path. Inl (Error ''ENOENT'')),
      Date_now = (\<lambda>h. int (length h)),
      toBase64 = (\<lambda>b. []),
      first_rejected = (\<lambda>h. 0)\<rparr>"

text \<open>
  A host on which everything answers: the local server lists \<open>installed\<close> and generates,
  the cloud service replies, files are empty, the clock counts requests.
\<close>

definition serving :: "string list \<Rightarrow> env" where
  "serving installed =
     \<lparr>fetch_tags = (\<lambda>h url. Inr (Response True 200 ''OK'' (Inr (Some installed)))),
      fetch_generate = (\<lambda>h url m p. Inr (Response True 200 ''OK'' (Inr (OllamaResponse ''Hi'' True)))),
      generateContent = (\<lambda>h g ps. Inr ''Hi''),
      readFile = (\<lambda>h path. Inr []),
      Date_now = (\<lambda>h. int (length h)),
      toBase64 = (\<lambda>b. []),
      first_rejected = (\<lambda>h. 0)\<rparr>"

text \<open>
  The same host with a local server that generates only with an installed model and
  answers 404 for any other name.
\<close>

definition strict :: "string list \<Rightarrow> env" where
  "strict installed =
     (serving installed)\<lparr>fetch_generate := (\<lambda>h url m p.
        if m \<in> set installed
        then Inr (Response True 200 ''OK'' (Inr (OllamaResponse ''Hi'' True)))
        else Inr (Response False 404 ''Not Found'' (Inr (OllamaResponse [] True))))\<rparr>"


text \<open>The same host with a cloud service that replies with the empty text.\<close>

definition silent :: env where
  "silent = (serving [])\<lparr>generateContent := (\<lambda>h g ps. Inr [])\<rparr>"


text \<open>
  A local server that never generates and whose list has changed by the second time
  it is asked.
\<close>

definition reinstalling :: env where
  "reinstalling =
     offline\<lparr>fetch_tags := (\<lambda>h url.
        if h = [] then Inr (Response True 200 ''OK'' (Inr (Some [''llama3.2''])))
        else Inr (Response True 200 ''OK'' (Inr (Some [''mistral'', ''llama3.2'']))))\<rparr>"

text \<open>
  A gateway in local mode with no cloud handle, as
  \<^verbatim>\<open>new LLMHelper(undefined, true, m)\<close> returns it.
\<close>

definition local_gateway :: "string \<Rightarrow> state" where
  "local_gateway m =
     \<lparr>self = \<lparr>model = None, useOllama = True, ollamaModel = m,
               ollamaUrl = ''http://localhost:11434''\<rparr>,
      trace = []\<rparr>"

text \<open>A gateway in cloud mode, as \<^verbatim>\<open>new LLMHelper("key")\<close> returns it.\<close>

definition cloud_gateway :: state where
  "cloud_gateway =
     \<lparr>self = \<lparr>model = Some (GenerativeModel ''key'' ''gemini-2.0-flash''), useOllama = False,
               ollamaModel = ''llama3.2'', ollamaUrl = ''http://localhost:11434''\<rparr>,
      trace = []\<rparr>"

section \<open>Lemmas\<close>

lemmas js_defs =
  js_return_def js_throw_def js_bind_def js_try_def js_lift_def await_io_def
  fetch_get_def fetch_post_def

text \<open>A handler that rethrows what it caught changes nothing.\<close>

lemma js_try_rethrow: "js_try m (\<lambda>err. js_throw err) = m"
  by (rule ext) (simp add: js_try_def js_throw_def split: prod.splits sum.splits)

subsection \<open>Methods that leave the object alone\<close>

lemma quietD:
  "quiet n m \<Longrightarrow> self (snd (m s)) = self s"
  "quiet n m \<Longrightarrow> \<exists>new. trace (snd (m s)) = trace s @ new \<and> generations new \<le> n"
  by (simp_all add: quiet_def)

lemma quiet_lift: "quiet 0 (js_lift r)"
  by (simp add: quiet_def js_lift_def generations_def)

lemma quiet_bind:
  assumes "quiet a m" and "\<And>x. quiet b (f x)"
  shows "quiet (a + b) (js_bind m f)"
  unfolding quiet_def
proof (intro allI)
  fix s
  obtain r s1 where ms: "m s = (r, s1)" by (cases "m s")
  from quietD [OF assms(1), of s] ms obtain new1 where 1: "self s1 = self s"
    "trace s1 = trace s @ new1" "generations new1 \<le> a"
    by auto
  show "self (snd (js_bind m f s)) = self s \<and>
        (\<exists>new. trace (snd (js_bind m f s)) = trace s @ new \<and> generations new \<le> a + b)"
  proof (cases r)
    case (Inl e)
    with ms 1 show ?thesis by (auto simp: js_bind_def)
  next
    case (Inr x)
    from quietD [OF assms(2), of x s1] obtain new2 where 2: "self (snd (f x s1)) = self s1"
      "trace (snd (f x s1)) = trace s1 @ new2" "generations new2 \<le> b"
      by auto
    have "generations (new1 @ new2) \<le> a + b"
      using 1 2 by (simp add: generations_def)
    with Inr ms 1 2 show ?thesis by (auto simp: js_bind_def)
  qed
qed

lemma quiet_bind0:
  assumes "quiet 0 m" and "\<And>x. quiet n (f x)"
  shows "quiet n (js_bind m f)"
  using quiet_bind [OF assms] by simp

lemma quiet_run_all:
  assumes "\<And>m. m \<in> set ms \<Longrightarrow> quiet 0 m"
  shows "self (snd (run_all ms s)) = self s \<and>
         (\<exists>new. trace (snd (run_all ms s)) = trace s @ new \<and> generations new \<le> 0)"
  using assms
proof (induction ms arbitrary: s)
  case Nil
  show ?case by (simp add: generations_def)
next
  case (Cons m ms)
  have m: "quiet 0 m"
    using Cons.prems by simp
  obtain r s1 where ms: "m s = (r, s1)" by (cases "m s")
  obtain rs s2 where ps: "run_all ms s1 = (rs, s2)" by (cases "run_all ms s1")
  from quietD [OF m, of s] ms obtain new1 where 1: "self s1 = self s"
    "trace s1 = trace s @ new1" "generations new1 = 0"
    by auto
  from Cons.IH [of s1] Cons.prems ps obtain new2 where 2: "self s2 = self s1"
    "trace s2 = trace s1 @ new2" "generations new2 = 0"
    by auto
  have "generations (new1 @ new2) \<le> 0"
    using 1 2 by (simp add: generations_def)
  with ms ps 1 2 show ?case
    by auto
qed

lemma quiet_promise_all:
  assumes "\<And>m. m \<in> set ms \<Longrightarrow> quiet 0 m"
  shows "quiet 0 (promise_all env ms)"
proof -
  have "snd (promise_all env ms s) = snd (run_all ms s)" for s
    by (simp add: promise_all_def split: prod.splits)
  then show ?thesis
    using quiet_run_all [OF assms] by (simp add: quiet_def)
qed

lemma quiet_getOllamaModels: "quiet 0 (getOllamaModels env)"
  by (auto simp: quiet_def getOllamaModels_def js_defs generations_def
      split: sum.splits option.splits)

lemma quiet_fs_readFile: "quiet 0 (fs_readFile env path)"
  by (auto simp: quiet_def fs_readFile_def js_defs generations_def
      split: sum.splits option.splits)

lemma quiet_generate_result: "quiet 1 (generate_result env parts)"
  by (auto simp: quiet_def generate_result_def model_generateContent_def date_now_def js_defs
      generations_def split: sum.splits option.splits)

lemma quiet_read_all: "quiet 0 (promise_all env' (map (fileToGenerativePart env) paths))"
  by (rule quiet_promise_all)
    (auto simp: quiet_def fileToGenerativePart_def fs_readFile_def js_defs generations_def
      split: sum.splits)

lemma quiet_extractProblemFromImages: "quiet 1 (extractProblemFromImages env imagePaths)"
  unfolding extractProblemFromImages_def js_try_rethrow
  by (intro quiet_bind0 quiet_read_all quiet_generate_result)

lemma quiet_generateSolution: "quiet 1 (generateSolution env problemInfo)"
  unfolding generateSolution_def js_try_rethrow
  by (intro quiet_bind0 quiet_lift quiet_generate_result)

lemma quiet_debugSolutionWithImages:
  "quiet 1 (debugSolutionWithImages env problemInfo currentCode debugImagePaths)"
  unfolding debugSolutionWithImages_def js_try_rethrow
  by (intro quiet_bind0 quiet_read_all quiet_lift quiet_generate_result)

lemma quiet_analyzeAudioFile: "quiet 1 (analyzeAudioFile env audioPath)"
  unfolding analyzeAudioFile_def js_try_rethrow
  by (intro quiet_bind0 quiet_fs_readFile quiet_generate_result)

lemma quiet_analyzeAudioFromBase64: "quiet 1 (analyzeAudioFromBase64 env d mt)"
  unfolding analyzeAudioFromBase64_def js_try_rethrow
  by (rule quiet_generate_result)

lemma quiet_analyzeImageFile: "quiet 1 (analyzeImageFile env imagePath)"
  unfolding analyzeImageFile_def js_try_rethrow
  by (intro quiet_bind0 quiet_fs_readFile quiet_generate_result)

lemma quiet_perform: "quiet 1 (perform env c)"
  by (cases c)
    (simp_all add: quiet_extractProblemFromImages quiet_generateSolution
      quiet_debugSolutionWithImages quiet_analyzeAudioFile quiet_analyzeAudioFromBase64
      quiet_analyzeImageFile del: One_nat_def)

lemma quiet_chatWithGemini: "quiet 1 (chatWithGemini env msg)"
  by (auto simp: quiet_def chatWithGemini_def callOllama_def model_generateContent_def js_defs
      generations_def split: sum.splits option.splits)

lemma quiet_testConnection: "quiet 1 (testConnection env)"
  by (auto simp: quiet_def testConnection_def checkOllamaAvailable_def callOllama_def
      model_generateContent_def js_defs generations_def split: sum.splits option.splits)

subsection \<open>Text and timestamp of a generation\<close>

lemma stamped_generate_result: "stamped env (generate_result env parts)"
  by (auto simp: stamped_def generate_result_def model_generateContent_def date_now_def js_defs
      split: sum.splits option.splits)

lemma stamped_bind:
  assumes "quiet 0 pre" and "\<And>x. stamped env (f x)"
  shows "stamped env (js_bind pre f)"
  unfolding stamped_def
proof (intro allI impI)
  fix s r s'
  assume run: "js_bind pre f s = (Inr r, s')"
  obtain x s1 where pre: "pre s = (Inr x, s1)" and rest: "f x s1 = (Inr r, s')"
    using run by (auto simp: js_bind_def split: prod.splits sum.splits)
  from quietD(2) [OF assms(1), of s] pre have "prefix (trace s) (trace s1)"
    by auto
  moreover from assms(2) [of x] rest obtain h g parts where
    "prefix (trace s1) h" "generateContent env h g parts = Inr (result_text r)"
    "timestamp r = Date_now env (h @ [GenerateContent g parts])"
    "trace s' = h @ [GenerateContent g parts, DateNow]"
    unfolding stamped_def by blast
  ultimately show "\<exists>h g parts. prefix (trace s) h \<and>
           generateContent env h g parts = Inr (result_text r) \<and>
           timestamp r = Date_now env (h @ [GenerateContent g parts]) \<and>
           trace s' = h @ [GenerateContent g parts, DateNow]"
    by (meson prefix_order.order_trans)
qed

lemma stamped_perform: "stamped env (perform env c)"
proof (cases c)
  case (ExtractProblemFromImages x1)
  then show ?thesis
    unfolding perform.simps ExtractProblemFromImages extractProblemFromImages_def js_try_rethrow
    by (intro stamped_bind quiet_read_all stamped_generate_result)
next
  case (GenerateSolution x2)
  then show ?thesis
    unfolding perform.simps GenerateSolution generateSolution_def js_try_rethrow
    by (intro stamped_bind quiet_lift stamped_generate_result)
next
  case (DebugSolutionWithImages x31 x32 x33)
  then show ?thesis
    unfolding perform.simps DebugSolutionWithImages debugSolutionWithImages_def js_try_rethrow
    by (intro stamped_bind quiet_lift quiet_read_all stamped_generate_result)
next
  case (AnalyzeAudioFile x4)
  then show ?thesis
    unfolding perform.simps AnalyzeAudioFile analyzeAudioFile_def js_try_rethrow
    by (intro stamped_bind quiet_fs_readFile stamped_generate_result)
next
  case (AnalyzeAudioFromBase64 x51 x52)
  then show ?thesis
    unfolding perform.simps AnalyzeAudioFromBase64 analyzeAudioFromBase64_def js_try_rethrow
    by (intro stamped_generate_result)
next
  case (AnalyzeImageFile x6)
  then show ?thesis
    unfolding perform.simps AnalyzeImageFile analyzeImageFile_def js_try_rethrow
    by (intro stamped_bind quiet_fs_readFile stamped_generate_result)
qed

subsection \<open>The selection of the local model, step by step\<close>

lemma getOllamaModels_local:
  "useOllama (self s) \<Longrightarrow>
   getOllamaModels env s =
     (Inr (listing env (trace s) (ollamaUrl (self s))),
      s\<lparr>trace := trace s @ [FetchGet (ollamaUrl (self s) @ ''/api/tags'')]\<rparr>)"
  by (simp add: getOllamaModels_def listing_def js_defs split: sum.splits option.splits)

lemma callOllama_snd:
  "snd (callOllama env p s) =
     s\<lparr>trace := trace s @ [FetchPost (ollamaUrl (self s) @ ''/api/generate'') (ollamaModel (self s)) p]\<rparr>"
  by (auto simp add: callOllama_def js_defs split: sum.splits option.splits if_splits)

lemma callOllama_isl:
  "isl (fst (callOllama env p s)) =
     (\<not> answers env (trace s) (ollamaUrl (self s)) (ollamaModel (self s)) p)"
  by (auto simp add: callOllama_def answers_def js_defs split: sum.splits option.splits if_splits)

lemma switchToOllama_no_model:
  "given model_arg = None \<Longrightarrow>
   switchToOllama env model_arg url_arg s = initializeOllamaModel env (entering url_arg s)"
  by (auto simp add: switchToOllama_def entering_def js_defs modify_def given_def or_default_def split: option.splits if_splits)

lemma initializeOllamaModel_local:
  assumes "useOllama (self s)"
  shows "initializeOllamaModel env s =
     (let u = ollamaUrl (self s); m = ollamaModel (self s);
          h1 = trace s @ [FetchGet (u @ ''/api/tags'')]
      in case listing env (trace s) u of
           [] \<Rightarrow> (Inr (), s\<lparr>trace := h1\<rparr>)
         | first # rest \<Rightarrow>
             (let m1 = (if m \<in> set (first # rest) then m else first);
                  h2 = h1 @ [FetchPost (u @ ''/api/generate'') m1 ''Hello'']
              in if answers env h1 u m1 ''Hello''
                 then (Inr (), s\<lparr>self := (self s)\<lparr>ollamaModel := m1\<rparr>, trace := h2\<rparr>)
                 else (Inr (),
                       s\<lparr>self := (self s)\<lparr>ollamaModel :=
                                      (case listing env h2 u of [] \<Rightarrow> m1 | f # r \<Rightarrow> f)\<rparr>,
                         trace := h2 @ [FetchGet (u @ ''/api/tags'')]\<rparr>)))"
proof (cases "listing env (trace s) (ollamaUrl (self s))")
  case Nil
  with assms show ?thesis
    by (simp add: initializeOllamaModel_def js_try_def js_bind_def js_return_def
        getOllamaModels_local)
next
  case (Cons first rest)
  define m1 where "m1 = (if ollamaModel (self s) \<in> set (first # rest) then ollamaModel (self s) else first)"
  define s2 where "s2 = s\<lparr>self := (self s)\<lparr>ollamaModel := m1\<rparr>,
     trace := trace s @ [FetchGet (ollamaUrl (self s) @ ''/api/tags'')]\<rparr>"
  have s2: "useOllama (self s2)" "ollamaUrl (self s2) = ollamaUrl (self s)"
    "ollamaModel (self s2) = m1"
    "trace s2 = trace s @ [FetchGet (ollamaUrl (self s) @ ''/api/tags'')]"
    using assms by (simp_all add: s2_def)
  obtain r s3 where call: "callOllama env ''Hello'' s2 = (r, s3)"
    by (cases "callOllama env ''Hello'' s2")
  have s3: "s3 = s2\<lparr>trace := trace s2 @ [FetchPost (ollamaUrl (self s) @ ''/api/generate'') m1 ''Hello'']\<rparr>"
    using callOllama_snd [of env "''Hello''" s2] call s2 by simp
  have r: "isl r = (\<not> answers env (trace s2) (ollamaUrl (self s)) m1 ''Hello'')"
    using callOllama_isl [of env "''Hello''" s2] call s2 by simp
  have step: "js_bind
       (\<lambda>s. if ollamaModel (self s) \<notin> set (first # rest)
            then modify (\<lambda>this. this\<lparr>ollamaModel := first\<rparr>) s
            else js_return () s)
       (\<lambda>u. js_bind (callOllama env ''Hello'') (\<lambda>testResult. js_return ()))
       (s\<lparr>trace := trace s @ [FetchGet (ollamaUrl (self s) @ ''/api/tags'')]\<rparr>)
     = (case r of Inl e \<Rightarrow> (Inl e, s3) | Inr x \<Rightarrow> (Inr (), s3))"
  proof -
    have "(if ollamaModel (self s) \<notin> set (first # rest)
            then modify (\<lambda>this. this\<lparr>ollamaModel := first\<rparr>)
                   (s\<lparr>trace := trace s @ [FetchGet (ollamaUrl (self s) @ ''/api/tags'')]\<rparr>)
            else js_return () (s\<lparr>trace := trace s @ [FetchGet (ollamaUrl (self s) @ ''/api/tags'')]\<rparr>))
          = (Inr (), s2)"
      by (auto simp add: modify_def js_return_def s2_def m1_def)
    then show ?thesis
      using call by (simp add: js_bind_def js_return_def split: sum.splits)
  qed
  show ?thesis
  proof (cases r)
    case (Inr x)
    with r have "answers env (trace s2) (ollamaUrl (self s)) m1 ''Hello''" by simp
    with Inr Cons assms step s3 s2 show ?thesis
      by (simp add: initializeOllamaModel_def js_try_def js_bind_def [of "getOllamaModels env"]
          getOllamaModels_local m1_def s2_def Let_def)
  next
    case (Inl e)
    with r have no: "\<not> answers env (trace s2) (ollamaUrl (self s)) m1 ''Hello''" by simp
    have s3u: "useOllama (self s3)" "ollamaUrl (self s3) = ollamaUrl (self s)"
      using s3 s2 by simp_all
    from Inl Cons assms step s3 s2 no show ?thesis
      by (simp add: initializeOllamaModel_def js_try_def js_bind_def [of "getOllamaModels env"]
          getOllamaModels_local m1_def s2_def Let_def js_return_def modify_def
          split: list.splits)
  qed
qed


section \<open>Properties\<close>

subsection \<open>Selecting the local model\<close>

text \<open>
  C1, as amended. \<^verbatim>\<open>switchToOllama\<close> with no model name fetches the model list and, when
  the test call that follows is answered, ends with this active model: the first entry
  of the list when the list is not empty and does not contain the model configured
  so far; the model configured so far when the list contains it, or is empty. The only
  call that has to be answered is the one issued, with the model selected; on an empty
  list none is issued.
\<close>

theorem switchToOllama_auto_selection:
  assumes "given model_arg = None"
      and "u = or_default url_arg (ollamaUrl (self s))"
      and "\<And>first rest. listing env (trace s) u = first # rest \<Longrightarrow>
             answers env (trace s @ [FetchGet (u @ ''/api/tags'')]) u
               (if ollamaModel (self s) \<in> set (first # rest) then ollamaModel (self s)
                else first)
               ''Hello''"
  shows "ollamaModel (self (snd (switchToOllama env model_arg url_arg s))) =
           (case listing env (trace s) u of
              [] \<Rightarrow> ollamaModel (self s)
            | first # rest \<Rightarrow>
                if ollamaModel (self s) \<in> set (first # rest) then ollamaModel (self s)
                else first)"
proof -
  have local: "useOllama (self (entering url_arg s))"
    by (simp add: entering_def)
  show ?thesis
  proof (cases "listing env (trace s) u")
    case Nil
    then show ?thesis
      unfolding switchToOllama_no_model [OF assms(1)] initializeOllamaModel_local [OF local]
      using assms(2) by (simp add: entering_def Let_def)
  next
    case (Cons first rest)
    note tested = assms(3) [OF Cons]
    show ?thesis
      unfolding switchToOllama_no_model [OF assms(1)] initializeOllamaModel_local [OF local]
      using assms(2) Cons tested by (simp add: entering_def Let_def)
  qed
qed

text \<open>
  On a server that generates only with installed models: an unknown name is replaced
  by the first entry, an installed one is kept.
\<close>

theorem switchToOllama_auto_selection_witness:
  "ollamaModel (self (snd (switchToOllama (strict [''mistral'', ''llama3.2'']) None None
     (local_gateway ''nonexistent-model'')))) = ''mistral'' \<and>
   ollamaModel (self (snd (switchToOllama (strict [''mistral'', ''llama3.2'']) None None
     (local_gateway ''llama3.2'')))) = ''llama3.2''"
proof -
  have 1: "given None = None" by (simp add: given_def)
  have 2: "''http://localhost:11434'' = or_default None (ollamaUrl (self (local_gateway m)))"
    for m
    by (simp add: or_default_def local_gateway_def)
  have 3: "listing (strict [''mistral'', ''llama3.2'']) h ''http://localhost:11434''
             = [''mistral'', ''llama3.2'']" for h
    by (simp add: listing_def getOllamaModels_def js_defs strict_def serving_def)
  have 4: "answers (strict [''mistral'', ''llama3.2'']) h ''http://localhost:11434'' m ''Hello''
             = (m \<in> set [''mistral'', ''llama3.2''])" for h m
    by (simp add: answers_def callOllama_def js_defs strict_def serving_def)
  have "ollamaModel (self (snd (switchToOllama (strict [''mistral'', ''llama3.2'']) None None
     (local_gateway ''nonexistent-model'')))) = ''mistral''"
    using switchToOllama_auto_selection [OF 1 2, of "strict [''mistral'', ''llama3.2'']"
        "''nonexistent-model''"]
    by (simp add: 3 4) (simp add: local_gateway_def)
  moreover have "ollamaModel (self (snd (switchToOllama (strict [''mistral'', ''llama3.2''])
     None None (local_gateway ''llama3.2'')))) = ''llama3.2''"
    using switchToOllama_auto_selection [OF 1 2, of "strict [''mistral'', ''llama3.2'']"
        "''llama3.2''"]
    by (simp add: 3 4) (simp add: local_gateway_def)
  ultimately show ?thesis by simp
qed

text \<open>
  C1 as stated fails: with \<^verbatim>\<open>mistral\<close> configured and the server listing
  \<^verbatim>\<open>llama3.2\<close>, \<^verbatim>\<open>mistral\<close>, the call keeps \<^verbatim>\<open>mistral\<close>, which is not the first entry.
\<close>

theorem switchToOllama_keeps_installed_model:
  "fst (getOllamaModels (serving [''llama3.2'', ''mistral'']) (local_gateway ''mistral''))
     = Inr [''llama3.2'', ''mistral''] \<and>
   ollamaModel (self (snd (switchToOllama (serving [''llama3.2'', ''mistral'']) None None
     (local_gateway ''mistral'')))) = ''mistral''"
  by (simp add: switchToOllama_def initializeOllamaModel_def getOllamaModels_def callOllama_def
      modify_def given_def js_defs serving_def local_gateway_def)

text \<open>
  C2, as amended. Local mode is entered by \<^verbatim>\<open>switchToOllama\<close> and by the constructor.
  When \<^verbatim>\<open>switchToOllama\<close> is given no model name, and when the constructor is called in
  local mode, a configured model that is absent from the list the server returns is
  replaced, and the call returns normally: the active model is the first entry of that
  list, or, when the test call with it fails and the fresh list is not empty, the first
  entry of the fresh list. When \<^verbatim>\<open>switchToOllama\<close> is given a model name, that name
  becomes the active model and no list is consulted.
\<close>

theorem entering_local_mode_selection:
  "(given model_arg = None \<and> u = or_default url_arg (ollamaUrl (self s)) \<and>
    listing env (trace s) u = first # rest \<and> ollamaModel (self s) \<notin> set (first # rest) \<longrightarrow>
      fst (switchToOllama env model_arg url_arg s) = Inr () \<and>
      ollamaModel (self (snd (switchToOllama env model_arg url_arg s)))
        = after_test env (trace s) u first) \<and>
   (u = or_default ollamaUrl_arg ''http://localhost:11434'' \<and>
    listing env [] u = first # rest \<and>
    or_default ollamaModel_arg ''gemma:latest'' \<notin> set (first # rest) \<longrightarrow>
      (\<exists>s'. constructor_settled env apiKey_arg (Some True) ollamaModel_arg ollamaUrl_arg = Inr s' \<and>
            ollamaModel (self s') = after_test env [] u first)) \<and>
   (given model_arg = Some m \<longrightarrow>
      switchToOllama env model_arg url_arg s =
        (Inr (), (entering url_arg s)\<lparr>self := (self (entering url_arg s))\<lparr>ollamaModel := m\<rparr>\<rparr>))"
proof (intro conjI impI)
  assume a: "given model_arg = None \<and> u = or_default url_arg (ollamaUrl (self s)) \<and>
    listing env (trace s) u = first # rest \<and> ollamaModel (self s) \<notin> set (first # rest)"
  then have none: "given model_arg = None"
    and u: "u = or_default url_arg (ollamaUrl (self s))"
    and absent: "ollamaModel (self s) \<notin> set (first # rest)"
    by simp_all
  from a have listed: "listing env (trace s) (or_default url_arg (ollamaUrl (self s)))
                         = first # rest"
    by auto
  have local: "useOllama (self (entering url_arg s))"
    by (simp add: entering_def)
  show "fst (switchToOllama env model_arg url_arg s) = Inr ()"
    unfolding switchToOllama_no_model [OF none] initializeOllamaModel_local [OF local]
    using absent by (simp add: entering_def Let_def listed)
  show "ollamaModel (self (snd (switchToOllama env model_arg url_arg s)))
        = after_test env (trace s) u first"
    unfolding switchToOllama_no_model [OF none] initializeOllamaModel_local [OF local]
    using absent by (simp add: entering_def Let_def after_test_def listed u)
next
  assume a: "u = or_default ollamaUrl_arg ''http://localhost:11434'' \<and>
    listing env [] u = first # rest \<and>
    or_default ollamaModel_arg ''gemma:latest'' \<notin> set (first # rest)"
  define this where "this = initial_fields\<lparr>useOllama := True,
    ollamaUrl := or_default ollamaUrl_arg ''http://localhost:11434'',
    ollamaModel := or_default ollamaModel_arg ''gemma:latest''\<rparr>"
  have built: "constructor apiKey_arg (Some True) ollamaModel_arg ollamaUrl_arg = Inr this"
    by (simp add: constructor_def this_def)
  have local: "useOllama (self \<lparr>self = this, trace = []\<rparr>)"
    by (simp add: this_def)
  from a have u: "u = or_default ollamaUrl_arg ''http://localhost:11434''"
    and absent: "or_default ollamaModel_arg ''gemma:latest'' \<notin> set (first # rest)"
    by simp_all
  from a have listed: "listing env [] (or_default ollamaUrl_arg ''http://localhost:11434'')
                         = first # rest"
    by auto
  have "ollamaModel (self (snd (initializeOllamaModel env \<lparr>self = this, trace = []\<rparr>)))
          = after_test env [] u first"
    unfolding initializeOllamaModel_local [OF local]
    using absent by (simp add: this_def Let_def after_test_def listed u)
  then show "\<exists>s'. constructor_settled env apiKey_arg (Some True) ollamaModel_arg ollamaUrl_arg
                = Inr s' \<and>
            ollamaModel (self s') = after_test env [] u first"
    using built local by (simp add: constructor_settled_def)
next
  assume "given model_arg = Some m"
  then show "switchToOllama env model_arg url_arg s =
        (Inr (), (entering url_arg s)\<lparr>self := (self (entering url_arg s))\<lparr>ollamaModel := m\<rparr>\<rparr>)"
    by (auto simp: switchToOllama_def modify_def js_defs entering_def given_def or_default_def
        split: option.splits if_splits)
qed

text \<open>
  The scenario of the specification: \<^verbatim>\<open>nonexistent-model\<close> configured, \<^verbatim>\<open>llama3.2\<close> and
  \<^verbatim>\<open>mistral\<close> installed, then \<^verbatim>\<open>switchToOllama()\<close>. With the two models listed in the
  other order the first entry is \<^verbatim>\<open>mistral\<close>, from the switch and from the constructor.
\<close>

theorem entering_local_mode_selection_witness:
  "ollamaModel (self (snd (switchToOllama (strict [''llama3.2'', ''mistral'']) None None
     (local_gateway ''nonexistent-model'')))) = ''llama3.2'' \<and>
   ollamaModel (self (snd (switchToOllama (strict [''mistral'', ''llama3.2'']) None None
     (local_gateway ''nonexistent-model'')))) = ''mistral'' \<and>
   (\<exists>s'. constructor_settled (strict [''mistral'', ''llama3.2''])
            None (Some True) (Some ''nonexistent-model'') None = Inr s' \<and>
         ollamaModel (self s') = ''mistral'') \<and>
   ollamaModel (self (snd (switchToOllama (strict [''mistral'', ''llama3.2''])
     (Some ''llama3.2'') None cloud_gateway))) = ''llama3.2''"
proof -
  have given: "given None = None" "given (Some ''llama3.2'') = Some ''llama3.2''"
    by (simp_all add: given_def)
  have url: "or_default None (ollamaUrl (self (local_gateway ''nonexistent-model'')))
     = ''http://localhost:11434''"
    "or_default None ''http://localhost:11434'' = ''http://localhost:11434''"
    by (simp_all add: or_default_def local_gateway_def)
  have listed: "listing (strict installed) h ''http://localhost:11434'' = installed"
    for installed h
    by (simp add: listing_def getOllamaModels_def js_defs strict_def serving_def)
  have tested: "answers (strict installed) h ''http://localhost:11434'' m ''Hello''
                  = (m \<in> set installed)" for installed h m
    by (simp add: answers_def callOllama_def js_defs strict_def serving_def)
  have state: "trace (local_gateway ''nonexistent-model'') = []"
    "ollamaModel (self (local_gateway ''nonexistent-model'')) = ''nonexistent-model''"
    by (simp_all add: local_gateway_def)
  note th = entering_local_mode_selection
  have 1: "ollamaModel (self (snd (switchToOllama (strict [''llama3.2'', ''mistral'']) None None
     (local_gateway ''nonexistent-model'')))) = ''llama3.2''"
    using th [where model_arg = None and url_arg = None
        and s = "local_gateway ''nonexistent-model''" and u = "''http://localhost:11434''"
        and env = "strict [''llama3.2'', ''mistral'']" and first = "''llama3.2''"
        and rest = "[''mistral'']"]
    by (simp add: given url listed tested state after_test_def)
  have 2: "ollamaModel (self (snd (switchToOllama (strict [''mistral'', ''llama3.2'']) None None
     (local_gateway ''nonexistent-model'')))) = ''mistral''"
    using th [where model_arg = None and url_arg = None
        and s = "local_gateway ''nonexistent-model''" and u = "''http://localhost:11434''"
        and env = "strict [''mistral'', ''llama3.2'']" and first = "''mistral''"
        and rest = "[''llama3.2'']"]
    by (simp add: given url listed tested state after_test_def)
  have 3: "\<exists>s'. constructor_settled (strict [''mistral'', ''llama3.2''])
            None (Some True) (Some ''nonexistent-model'') None = Inr s' \<and>
         ollamaModel (self s') = ''mistral''"
    using th [where ollamaUrl_arg = None and ollamaModel_arg = "Some ''nonexistent-model''"
        and u = "''http://localhost:11434''" and apiKey_arg = None
        and env = "strict [''mistral'', ''llama3.2'']" and first = "''mistral''"
        and rest = "[''llama3.2'']"]
    by (simp add: url listed tested after_test_def or_default_def)
  have 4: "ollamaModel (self (snd (switchToOllama (strict [''mistral'', ''llama3.2''])
     (Some ''llama3.2'') None cloud_gateway))) = ''llama3.2''"
    using th [where model_arg = "Some ''llama3.2''" and m = "''llama3.2''" and url_arg = None
        and s = cloud_gateway and env = "strict [''mistral'', ''llama3.2'']"]
    by (simp add: given)
  from 1 2 3 4 show ?thesis by simp
qed

text \<open>
  C2 as stated fails for an entry with a model name: \<^verbatim>\<open>switchToOllama\<close> called with
  \<^verbatim>\<open>nonexistent-model\<close> on a gateway in cloud mode enters local mode and keeps that
  name, although the server lists \<^verbatim>\<open>llama3.2\<close> and \<^verbatim>\<open>mistral\<close>.
\<close>

theorem switchToOllama_keeps_explicit_name:
  "\<not> useOllama (self cloud_gateway) \<and>
   useOllama (self (snd (switchToOllama (serving [''llama3.2'', ''mistral''])
     (Some ''nonexistent-model'') None cloud_gateway))) \<and>
   fst (getOllamaModels (serving [''llama3.2'', ''mistral''])
     (snd (switchToOllama (serving [''llama3.2'', ''mistral''])
        (Some ''nonexistent-model'') None cloud_gateway)))
     = Inr [''llama3.2'', ''mistral''] \<and>
   ollamaModel (self (snd (switchToOllama (serving [''llama3.2'', ''mistral''])
     (Some ''nonexistent-model'') None cloud_gateway))) = ''nonexistent-model''"
  by (simp add: switchToOllama_def getOllamaModels_def modify_def given_def js_defs serving_def
      cloud_gateway_def)




subsection \<open>Operations that never throw\<close>

text \<open>
  C4. \<^verbatim>\<open>testConnection\<close> never throws, whatever the state and whatever the backends
  do: it returns a result that is a success without an error, or a failure with an
  error string.
\<close>

theorem testConnection_never_throws:
  "\<exists>c. fst (testConnection env s) = Inr c \<and>
       (success c \<and> error c = None \<or> \<not> success c \<and> (\<exists>msg. error c = Some msg))"
  by (auto simp: testConnection_def checkOllamaAvailable_def js_defs
      split: sum.splits prod.splits option.splits)

text \<open>The scenario of the specification: the local server cannot be reached.\<close>

theorem testConnection_never_throws_witness:
  "fst (testConnection offline (local_gateway ''llama3.2''))
     = Inr (Connection False (Some ''Ollama not available at http://localhost:11434''))"
  using testConnection_never_throws [of offline "local_gateway ''llama3.2''"]
  by (simp add: testConnection_def checkOllamaAvailable_def js_defs offline_def
      local_gateway_def)

text \<open>
  C5. \<^verbatim>\<open>getOllamaModels\<close> never raises, whatever the server does; and when the request
  for the model list fails or its response is not \<^verbatim>\<open>ok\<close>, the result is the empty
  list.
\<close>

theorem getOllamaModels_never_raises:
  "(\<exists>names. fst (getOllamaModels env s) = Inr names) \<and>
   ((\<forall>rsp. fetch_tags env (trace s) (ollamaUrl (self s) @ ''/api/tags'') = Inr rsp \<longrightarrow> \<not> ok rsp)
      \<longrightarrow> fst (getOllamaModels env s) = Inr [])"
  by (auto simp: getOllamaModels_def js_defs split: sum.splits prod.splits option.splits)

theorem getOllamaModels_never_raises_witness:
  "fst (getOllamaModels offline (local_gateway ''llama3.2'')) = Inr []"
  using getOllamaModels_never_raises [of offline "local_gateway ''llama3.2''"]
  by (simp add: offline_def)

subsection \<open>Generation\<close>

text \<open>
  C6, as amended. A generation method that returns gives back the text of the cloud
  service's reply as it is, empty or not, and the clock as read right after that
  reply. If the clock of the host never goes back, the timestamp of a call is at most
  the timestamp of any call that starts after it has returned.
\<close>

theorem generation_text_and_timestamp:
  assumes first: "perform env c1 s1 = (Inr r1, s1')"
      and later: "prefix (trace s1') (trace s2)"
      and second: "perform env c2 s2 = (Inr r2, s2')"
      and clock: "\<forall>h h'. prefix h h' \<longrightarrow> Date_now env h \<le> Date_now env h'"
  shows "(\<exists>h g parts. prefix (trace s1) h \<and> trace s1' = h @ [GenerateContent g parts, DateNow] \<and>
            generateContent env h g parts = Inr (result_text r1) \<and>
            timestamp r1 = Date_now env (h @ [GenerateContent g parts])) \<and>
         timestamp r1 \<le> timestamp r2"
proof -
  from stamped_perform [of env c1] first obtain h1 g1 p1 where 1:
    "prefix (trace s1) h1" "generateContent env h1 g1 p1 = Inr (result_text r1)"
    "timestamp r1 = Date_now env (h1 @ [GenerateContent g1 p1])"
    "trace s1' = h1 @ [GenerateContent g1 p1, DateNow]"
    unfolding stamped_def by blast
  from stamped_perform [of env c2] second obtain h2 g2 p2 where 2:
    "prefix (trace s2) h2" "timestamp r2 = Date_now env (h2 @ [GenerateContent g2 p2])"
    unfolding stamped_def by blast
  have "prefix (h1 @ [GenerateContent g1 p1]) (trace s1')"
    using 1(4) by simp
  also have "prefix (trace s1') (trace s2)" by (rule later)
  also have "prefix (trace s2) h2" by (rule 2(1))
  also have "prefix h2 (h2 @ [GenerateContent g2 p2])" by simp
  finally have "Date_now env (h1 @ [GenerateContent g1 p1]) \<le> Date_now env (h2 @ [GenerateContent g2 p2])"
    using clock by blast
  with 1 2 show ?thesis by auto
qed

text \<open>A text prompt, then an audio prompt, on a host that answers.\<close>

theorem generation_text_and_timestamp_witness:
  "\<exists>r1 s1' r2 s2'.
     perform (serving []) (GenerateSolution (Inr ''{}'')) cloud_gateway = (Inr r1, s1') \<and>
     perform (serving []) (AnalyzeAudioFile ''question.mp3'') s1' = (Inr r2, s2') \<and>
     result_text r1 = ''Hi'' \<and> timestamp r1 = 1 \<and> timestamp r1 \<le> timestamp r2"
proof -
  define s1' where "s1' = snd (perform (serving []) (GenerateSolution (Inr ''{}'')) cloud_gateway)"
  define s2' where "s2' = snd (perform (serving []) (AnalyzeAudioFile ''question.mp3'') s1')"
  have first: "perform (serving []) (GenerateSolution (Inr ''{}'')) cloud_gateway
                 = (Inr (Generation ''Hi'' 1), s1')"
    by (simp add: s1'_def generateSolution_def generate_result_def model_generateContent_def
        date_now_def js_defs serving_def cloud_gateway_def)
  have model: "model (self s1') = Some (GenerativeModel ''key'' ''gemini-2.0-flash'')"
    using quietD(1) [OF quiet_perform, of "serving []" "GenerateSolution (Inr ''{}'')" cloud_gateway]
    by (simp add: s1'_def cloud_gateway_def)
  have "\<exists>n. fst (perform (serving []) (AnalyzeAudioFile ''question.mp3'') s1')
                 = Inr (Generation ''Hi'' n)"
    using model
    by (simp add: analyzeAudioFile_def fs_readFile_def generate_result_def
        model_generateContent_def date_now_def js_defs serving_def)
  then obtain n where second: "perform (serving []) (AnalyzeAudioFile ''question.mp3'') s1'
                 = (Inr (Generation ''Hi'' n), s2')"
    by (auto simp: s2'_def prod_eq_iff)
  have clock: "\<forall>h h'. prefix h h' \<longrightarrow> Date_now (serving []) h \<le> Date_now (serving []) h'"
    by (simp add: serving_def prefix_length_le)
  from generation_text_and_timestamp [OF first _ second clock]
  have "timestamp (Generation ''Hi'' 1) \<le> timestamp (Generation ''Hi'' n)"
    by simp
  with first second show ?thesis
    by (intro exI [of _ "Generation ''Hi'' 1"] exI [of _ s1'] exI [of _ "Generation ''Hi'' n"]
        exI [of _ s2']) simp
qed

text \<open>
  C6 as stated fails where it says that the text is not empty: when the cloud
  service replies with the empty text, \<^verbatim>\<open>generateSolution\<close> returns it as a success.
\<close>

theorem generateSolution_returns_empty_text:
  "fst (generateSolution silent (Inr ''{}'') cloud_gateway) = Inr (Generation [] 1)"
  by (simp add: generateSolution_def generate_result_def model_generateContent_def
      date_now_def js_defs silent_def serving_def cloud_gateway_def)

text \<open>
  C7. A generation call with attachments issued in local mode should fail with an
  error that names the active backend. The code does not do so. On a gateway
  constructed in cloud mode and then switched to the local backend, the provider is
  \<^verbatim>\<open>ollama\<close>, yet \<^verbatim>\<open>extractProblemFromImages\<close> reads the file, sends it to the cloud
  handle and returns the cloud service's text. On a gateway constructed in local mode
  the same call fails only because the field \<^verbatim>\<open>model\<close> is \<^verbatim>\<open>null\<close>, with a \<^verbatim>\<open>TypeError\<close>
  that names no backend.
\<close>

theorem extractProblemFromImages_in_local_mode:
  "getCurrentProvider
     (self (snd (switchToOllama (serving [''llama3.2'']) (Some ''llama3.2'') None cloud_gateway)))
     = ''ollama'' \<and>
   extractProblemFromImages (serving [''llama3.2'']) [''shot.png'']
     (snd (switchToOllama (serving [''llama3.2'']) (Some ''llama3.2'') None cloud_gateway))
     = (Inr (Generation ''Hi'' 2),
        \<lparr>self = (self cloud_gateway)\<lparr>useOllama := True\<rparr>,
         trace = [ReadFile ''shot.png'',
                  GenerateContent (GenerativeModel ''key'' ''gemini-2.0-flash'')
                    [Text extractProblem_prompt, InlineData [] ''image/png''],
                  DateNow]\<rparr>) \<and>
   fst (extractProblemFromImages (serving [''llama3.2'']) [''shot.png'']
          (local_gateway ''llama3.2''))
     = Inl (TypeError ''Cannot read properties of null (reading 'generateContent')'')"
  by (simp add: getCurrentProvider_def switchToOllama_def modify_def given_def
      extractProblemFromImages_def promise_all_def rejections_def fulfilled_def
      fileToGenerativePart_def fs_readFile_def generate_result_def
      model_generateContent_def date_now_def js_defs serving_def cloud_gateway_def
      local_gateway_def)

subsection \<open>Construction\<close>

text \<open>
  C8. The constructor throws its configuration error exactly when local mode is not
  asked for and no non-empty credential is given; it returns an object exactly when local
  mode is asked for or a non-empty credential is given.
\<close>

theorem constructor_fails_iff:
  "(constructor apiKey_arg useOllama_arg ollamaModel_arg ollamaUrl_arg
      = Inl (Error ''Either provide Gemini API key or enable Ollama mode''))
     = (useOllama_arg \<noteq> Some True \<and> (apiKey_arg = None \<or> apiKey_arg = Some [])) \<and>
   (\<exists>this. constructor apiKey_arg useOllama_arg ollamaModel_arg ollamaUrl_arg = Inr this)
     = (useOllama_arg = Some True \<or> (\<exists>k. apiKey_arg = Some k \<and> k \<noteq> []))"
  by (auto simp: constructor_def given_def Let_def split: option.splits)

theorem constructor_fails_iff_witness:
  "constructor (Some []) None None None
     = Inl (Error ''Either provide Gemini API key or enable Ollama mode'') \<and>
   (\<exists>this. constructor None (Some True) None None = Inr this) \<and>
   (\<exists>this. constructor (Some ''key'') (Some False) None None = Inr this)"
  using constructor_fails_iff [of "Some []" None None None]
    constructor_fails_iff [of None "Some True" None None]
    constructor_fails_iff [of "Some ''key''" "Some False" None None]
  by simp

subsection \<open>The provider mode\<close>

text \<open>
  C9. Every generation method, \<^verbatim>\<open>chatWithGemini\<close>, \<^verbatim>\<open>chat\<close>, \<^verbatim>\<open>testConnection\<close> and
  \<^verbatim>\<open>getOllamaModels\<close> leave the provider mode as it was, whether they return or throw.
  (\<^verbatim>\<open>isUsingOllama\<close>, \<^verbatim>\<open>getCurrentProvider\<close> and \<^verbatim>\<open>getCurrentModel\<close> only read the
  object.)
\<close>

theorem mode_unchanged:
  "useOllama (self (snd (perform env c s))) = useOllama (self s) \<and>
   useOllama (self (snd (chatWithGemini env msg s))) = useOllama (self s) \<and>
   useOllama (self (snd (chat env msg s))) = useOllama (self s) \<and>
   useOllama (self (snd (testConnection env s))) = useOllama (self s) \<and>
   useOllama (self (snd (getOllamaModels env s))) = useOllama (self s)"
  by (simp add: quietD(1) [OF quiet_perform] quietD(1) [OF quiet_chatWithGemini]
      quietD(1) [OF quiet_testConnection] quietD(1) [OF quiet_getOllamaModels] chat_def)

text \<open>
  C10. In cloud mode \<^verbatim>\<open>getOllamaModels\<close> returns the empty list at once: no request is
  issued (the trace is unchanged) and the reply the server would have given is never
  looked at.
\<close>

theorem getOllamaModels_cloud_mode:
  "\<not> useOllama (self s) \<Longrightarrow> getOllamaModels env s = (Inr [], s)"
  by (simp add: getOllamaModels_def js_return_def)

text \<open>The same server lists its two models to a gateway in local mode.\<close>

theorem getOllamaModels_cloud_mode_witness:
  "\<not> useOllama (self cloud_gateway) \<and>
   getOllamaModels (serving [''llama3.2'', ''mistral'']) cloud_gateway = (Inr [], cloud_gateway) \<and>
   fst (getOllamaModels (serving [''llama3.2'', ''mistral'']) (local_gateway ''llama3.2''))
     = Inr [''llama3.2'', ''mistral'']"
proof -
  have cloud: "\<not> useOllama (self cloud_gateway)"
    by (simp add: cloud_gateway_def)
  have served: "fst (getOllamaModels (serving [''llama3.2'', ''mistral'']) (local_gateway ''llama3.2''))
     = Inr [''llama3.2'', ''mistral'']"
    by (simp add: getOllamaModels_def js_defs serving_def local_gateway_def)
  from cloud served getOllamaModels_cloud_mode [OF cloud] show ?thesis
    by simp
qed

end
